theory Spec2Isabelle
  imports Main "HOL-Library.AList"
begin

section \<open>JavaScript values\<close>

text \<open>
  The adapter of \<^verbatim>\<open>src/auth.js\<close> is untyped: every argument and every field of an API
  reply is an arbitrary JavaScript value. Numbers are carried as integers plus \<open>NaN\<close>
  (the code only ever tests them for truthiness); functions and symbols are opaque.
  An object literal is its list of own properties in insertion order.
\<close>

datatype jsval =
    JUndefined
  | JNull
  | JBool bool
  | JNum int
  | JNaN
  | JStr string
  | JBigInt int
  | JSymbol nat
  | JFunction nat
  | JObject "(string \<times> jsval) list"

type_synonym obj = "(string \<times> jsval) list"

text \<open>The \<^verbatim>\<open>typeof\<close> operator: \<^verbatim>\<open>typeof null\<close> is \<^verbatim>\<open>'object'\<close>.\<close>

fun typeof :: "jsval \<Rightarrow> string" where
  "typeof JUndefined = ''undefined''"
| "typeof JNull = ''object''"
| "typeof (JBool b) = ''boolean''"
| "typeof (JNum n) = ''number''"
| "typeof JNaN = ''number''"
| "typeof (JStr s) = ''string''"
| "typeof (JBigInt n) = ''bigint''"
| "typeof (JSymbol n) = ''symbol''"
| "typeof (JFunction n) = ''function''"
| "typeof (JObject fs) = ''object''"

text \<open>Truthiness, as tested by \<^verbatim>\<open>!v\<close>, \<^verbatim>\<open>v && w\<close> and \<^verbatim>\<open>v || w\<close>.\<close>

fun truthy :: "jsval \<Rightarrow> bool" where
  "truthy JUndefined = False"
| "truthy JNull = False"
| "truthy (JBool b) = b"
| "truthy (JNum n) = (n \<noteq> 0)"
| "truthy JNaN = False"
| "truthy (JStr s) = (s \<noteq> [])"
| "truthy (JBigInt n) = (n \<noteq> 0)"
| "truthy (JSymbol n) = True"
| "truthy (JFunction n) = True"
| "truthy (JObject fs) = True"

text \<open>
  Reading a property of a plain object (an object literal, or an object of an API reply),
  for the property names the adapter reads: an own property gives its value, anything else
  reads as \<^verbatim>\<open>undefined\<close>.
\<close>

definition own_field :: "obj \<Rightarrow> string \<Rightarrow> jsval" where
  "own_field fs k = (case map_of fs k of None \<Rightarrow> JUndefined | Some v \<Rightarrow> v)"

text \<open>
  Member access \<^verbatim>\<open>v.k\<close> on an arbitrary value, for the property names the adapter reads
  from its \<^verbatim>\<open>details\<close> argument (\<^verbatim>\<open>username\<close>, \<^verbatim>\<open>email\<close>, \<^verbatim>\<open>password\<close>): on
  \<^verbatim>\<open>undefined\<close> and \<^verbatim>\<open>null\<close> it throws a TypeError (\<open>None\<close>); a primitive has none
  of these properties.
\<close>

fun member :: "jsval \<Rightarrow> string \<Rightarrow> jsval option" where
  "member JUndefined k = None"
| "member JNull k = None"
| "member (JObject fs) k = Some (own_field fs k)"
| "member v k = Some JUndefined"

text \<open>\<^verbatim>\<open>Object.keys\<close> of a plain object: its own property names.\<close>

definition Object_keys :: "obj \<Rightarrow> string list" where
  "Object_keys fs = remdups (map fst fs)"

section \<open>User objects\<close>

text \<open>
  A user object is written through \<^verbatim>\<open>this.user[key] = value\<close> with keys that come from
  an API reply, and the key \<^verbatim>\<open>__proto__\<close> is special in JavaScript: the assignment
  reaches the accessor that \<^verbatim>\<open>Object.prototype\<close> defines, which replaces the prototype
  of the object instead of writing a property. So a user object is its own properties
  and its prototype: the one its constructor gave it (\<^verbatim>\<open>AceBaseUser.prototype\<close>, over
  \<^verbatim>\<open>Object.prototype\<close>), or the object, \<^verbatim>\<open>null\<close> or function that a \<^verbatim>\<open>__proto__\<close>
  assignment has put in its place.
\<close>

datatype proto =
    Default_proto
  | Object_proto obj
  | Null_proto
  | Function_proto nat

record user_object =
  props :: obj
  proto :: proto

text \<open>
  Reading \<^verbatim>\<open>this.user.uid\<close>: the own property, else what the prototype gives. The
  constructor's prototype and an opaque function give no \<^verbatim>\<open>uid\<close>; an object taken from a
  reply gives its own.
\<close>

definition field :: "user_object \<Rightarrow> string \<Rightarrow> jsval" where
  "field ob k =
     (case map_of (props ob) k of
        Some v \<Rightarrow> v
      | None \<Rightarrow> (case proto ob of Object_proto fs \<Rightarrow> own_field fs k | _ \<Rightarrow> JUndefined))"

text \<open>
  Whether an assignment to \<^verbatim>\<open>__proto__\<close> on the object finds the accessor of
  \<^verbatim>\<open>Object.prototype\<close>: the object has no own property of that name, and its prototype
  chain leads to \<^verbatim>\<open>Object.prototype\<close> without meeting a data property of that name.
\<close>

definition reaches_proto_setter :: "user_object \<Rightarrow> bool" where
  "reaches_proto_setter ob =
     (map_of (props ob) ''__proto__'' = None \<and>
      (case proto ob of
         Default_proto \<Rightarrow> True
       | Object_proto fs \<Rightarrow> map_of fs ''__proto__'' = None
       | Null_proto \<Rightarrow> False
       | Function_proto n \<Rightarrow> True))"

text \<open>
  The accessor's setter: an object, \<^verbatim>\<open>null\<close> or a function becomes the prototype; any
  other value is ignored. No own property is written.
\<close>

fun set_proto :: "jsval \<Rightarrow> user_object \<Rightarrow> user_object" where
  "set_proto (JObject fs) ob = ob\<lparr>proto := Object_proto fs\<rparr>"
| "set_proto JNull ob = ob\<lparr>proto := Null_proto\<rparr>"
| "set_proto (JFunction n) ob = ob\<lparr>proto := Function_proto n\<rparr>"
| "set_proto v ob = ob"

text \<open>
  The assignment \<^verbatim>\<open>o[k] = v\<close> on a user object: the own property is written (replaced in
  place, or added after the others), except that \<^verbatim>\<open>__proto__\<close> goes to the setter when
  the assignment reaches it.
\<close>

definition assign :: "string \<Rightarrow> jsval \<Rightarrow> user_object \<Rightarrow> user_object" where
  "assign k v ob =
     (if k = ''__proto__'' \<and> reaches_proto_setter ob then set_proto v ob
      else ob\<lparr>props := AList.update k v (props ob)\<rparr>)"

section \<open>The adapter's state, the heap of user objects, and what a call produces\<close>

text \<open>
  \<^verbatim>\<open>this.user\<close> is \<^verbatim>\<open>null\<close> or a reference to an \<^verbatim>\<open>AceBaseUser\<close> object. The same
  reference is handed to the event callback and to the caller, and
  \<^verbatim>\<open>_updateUserDetails\<close> writes through it, so user objects live in a store:
  \<open>heap\<close> maps an address to the object and \<open>next_ref\<close> is the next unused address. \<^verbatim>\<open>this.accessToken\<close> holds whatever value the API delivered.
\<close>

type_synonym addr = nat

record adapter =
  user :: "addr option"
  accessToken :: jsval
  heap :: "addr \<Rightarrow> user_object"
  next_ref :: addr

text \<open>The constructor: \<^verbatim>\<open>this.user = null; this.accessToken = null\<close>.\<close>

definition new_AceBaseClientAuth :: adapter where
  "new_AceBaseClientAuth =
     \<lparr>user = None, accessToken = JNull, heap = (\<lambda>a. \<lparr>props = [], proto = Default_proto\<rparr>), next_ref = 0\<rparr>"

text \<open>Allocation of a new object (\<^verbatim>\<open>new AceBaseUser(...)\<close>) at the next unused address.\<close>

definition allocate :: "user_object \<Rightarrow> adapter \<Rightarrow> adapter" where
  "allocate ob this =
     this\<lparr>heap := (heap this)(next_ref this := ob), next_ref := Suc (next_ref this)\<rparr>"

text \<open>
  The settled reply of the Remote Auth API (\<^verbatim>\<open>this.client.api\<close>), per method: \<open>Inl\<close>
  the error a rejected promise carries, \<open>Inr\<close> the value of a fulfilled one, shaped as
  the adapter reads it (\<^verbatim>\<open>details.accessToken\<close>, \<^verbatim>\<open>details.user\<close>,
  \<^verbatim>\<open>result.accessToken\<close>, \<^verbatim>\<open>result.user\<close>).
\<close>

datatype sign_in_details = Details (accessToken_of: jsval) (user_of: jsval)

record remote_api =
  api_signIn :: "jsval \<Rightarrow> jsval \<Rightarrow> jsval + sign_in_details"
  api_signInWithEmail :: "jsval \<Rightarrow> jsval \<Rightarrow> jsval + sign_in_details"
  api_signInWithToken :: "jsval \<Rightarrow> jsval + sign_in_details"
  api_signOut :: "jsval \<Rightarrow> jsval + unit"
  api_changePassword :: "jsval \<Rightarrow> jsval \<Rightarrow> jsval \<Rightarrow> jsval + jsval"
  api_forgotPassword :: "jsval \<Rightarrow> jsval + jsval"
  api_resetPassword :: "jsval \<Rightarrow> jsval \<Rightarrow> jsval + jsval"
  api_updateUserDetails :: "jsval \<Rightarrow> jsval + obj"
  api_signUp :: "jsval \<Rightarrow> bool \<Rightarrow> jsval + sign_in_details"
  api_deleteAccount :: "jsval \<Rightarrow> bool \<Rightarrow> jsval + unit"

text \<open>The calls made on the API, recorded with their arguments.\<close>

datatype api_call =
    Call_signIn jsval jsval
  | Call_signInWithEmail jsval jsval
  | Call_signInWithToken jsval
  | Call_signOut jsval
  | Call_changePassword jsval jsval jsval
  | Call_forgotPassword jsval
  | Call_resetPassword jsval jsval
  | Call_updateUserDetails jsval
  | Call_signUp jsval bool
  | Call_deleteAccount jsval bool

text \<open>
  \<^verbatim>\<open>this.eventCallback(name, { source, user, accessToken })\<close>: the event name, the source
  tag, the user reference and, for sign-in events, the access token.
\<close>

datatype event = Event string string addr "jsval option"

text \<open>How the returned promise settles.\<close>

datatype rejection =
    Precondition string string
  | Api_error jsval

datatype resolved =
    Res_user_token addr jsval
  | Res_void
  | Res_token jsval
  | Res_user addr
  | Res_new_user jsval
  | Res_passthrough jsval

datatype settled =
    Resolved resolved
  | Rejected rejection
  | Thrown_TypeError

record outcome =
  after :: adapter
  emitted :: "event list"
  called :: "api_call list"
  settled :: settled

definition not_signed_in :: rejection where
  "not_signed_in = Precondition ''not_signed_in'' ''Not signed in!''"

section \<open>The operations of \<^verbatim>\<open>AceBaseClientAuth\<close>\<close>

text \<open>
  Each operation takes the API (whose reply to the one call it makes is awaited before
  anything else runs), the \<^verbatim>\<open>AceBaseUser\<close> constructor where it is used (its source,
  \<^verbatim>\<open>./user\<close>, is a parameter here), the arguments and the adapter \<open>this\<close>. The event
  callback records the event and returns.
\<close>

definition signIn ::
  "(jsval \<Rightarrow> user_object) \<Rightarrow> remote_api \<Rightarrow> jsval \<Rightarrow> jsval \<Rightarrow> adapter \<Rightarrow> outcome" where
  "signIn AceBaseUser api username password this =
     (let this1 = this\<lparr>user := None\<rparr> in
      case api_signIn api username password of
        Inl err \<Rightarrow>
          \<lparr>after = this1, emitted = [], called = [Call_signIn username password],
           settled = Rejected (Api_error err)\<rparr>
      | Inr details \<Rightarrow>
          (let this2 = this1\<lparr>accessToken := accessToken_of details\<rparr>;
               u = next_ref this2;
               this3 = (allocate (AceBaseUser (user_of details)) this2)\<lparr>user := Some u\<rparr>
           in \<lparr>after = this3,
               emitted = [Event ''signin'' ''signin'' u (Some (accessToken this3))],
               called = [Call_signIn username password],
               settled = Resolved (Res_user_token u (accessToken this3))\<rparr>))"

definition signInWithEmail ::
  "(jsval \<Rightarrow> user_object) \<Rightarrow> remote_api \<Rightarrow> jsval \<Rightarrow> jsval \<Rightarrow> adapter \<Rightarrow> outcome" where
  "signInWithEmail AceBaseUser api email password this =
     (let this1 = this\<lparr>user := None\<rparr> in
      case api_signInWithEmail api email password of
        Inl err \<Rightarrow>
          \<lparr>after = this1, emitted = [], called = [Call_signInWithEmail email password],
           settled = Rejected (Api_error err)\<rparr>
      | Inr details \<Rightarrow>
          (let this2 = this1\<lparr>accessToken := accessToken_of details\<rparr>;
               u = next_ref this2;
               this3 = (allocate (AceBaseUser (user_of details)) this2)\<lparr>user := Some u\<rparr>
           in \<lparr>after = this3,
               emitted = [Event ''signin'' ''email_signin'' u (Some (accessToken this3))],
               called = [Call_signInWithEmail email password],
               settled = Resolved (Res_user_token u (accessToken this3))\<rparr>))"

definition signInWithToken ::
  "(jsval \<Rightarrow> user_object) \<Rightarrow> remote_api \<Rightarrow> jsval \<Rightarrow> adapter \<Rightarrow> outcome" where
  "signInWithToken AceBaseUser api token this =
     (let this1 = this\<lparr>user := None\<rparr> in
      case api_signInWithToken api token of
        Inl err \<Rightarrow>
          \<lparr>after = this1, emitted = [], called = [Call_signInWithToken token],
           settled = Rejected (Api_error err)\<rparr>
      | Inr details \<Rightarrow>
          (let this2 = this1\<lparr>accessToken := accessToken_of details\<rparr>;
               u = next_ref this2;
               this3 = (allocate (AceBaseUser (user_of details)) this2)\<lparr>user := Some u\<rparr>
           in \<lparr>after = this3,
               emitted = [Event ''signin'' ''token_signin'' u (Some (accessToken this3))],
               called = [Call_signInWithToken token],
               settled = Resolved (Res_user_token u (accessToken this3))\<rparr>))"

definition signOut :: "remote_api \<Rightarrow> jsval \<Rightarrow> adapter \<Rightarrow> outcome" where
  "signOut api everywhere this =
     (case user this of
        None \<Rightarrow>
          \<lparr>after = this, emitted = [], called = [], settled = Rejected not_signed_in\<rparr>
      | Some u \<Rightarrow>
          (case api_signOut api everywhere of
             Inl err \<Rightarrow>
               \<lparr>after = this, emitted = [], called = [Call_signOut everywhere],
                settled = Rejected (Api_error err)\<rparr>
           | Inr _ \<Rightarrow>
               \<lparr>after = this\<lparr>accessToken := JNull, user := None\<rparr>,
                emitted = [Event ''signout'' ''signout'' u None],
                called = [Call_signOut everywhere],
                settled = Resolved Res_void\<rparr>))"

definition changePassword :: "remote_api \<Rightarrow> jsval \<Rightarrow> jsval \<Rightarrow> adapter \<Rightarrow> outcome" where
  "changePassword api oldPassword newPassword this =
     (case user this of
        None \<Rightarrow>
          \<lparr>after = this, emitted = [], called = [], settled = Rejected not_signed_in\<rparr>
      | Some u \<Rightarrow>
          (let uid = field (heap this u) ''uid'' in
           case api_changePassword api uid oldPassword newPassword of
             Inl err \<Rightarrow>
               \<lparr>after = this, emitted = [],
                called = [Call_changePassword uid oldPassword newPassword],
                settled = Rejected (Api_error err)\<rparr>
           | Inr token \<Rightarrow>
               (let this1 = this\<lparr>accessToken := token\<rparr> in
                \<lparr>after = this1,
                 emitted = [Event ''signin'' ''password_change'' u (Some (accessToken this1))],
                 called = [Call_changePassword uid oldPassword newPassword],
                 settled = Resolved (Res_token token)\<rparr>)))"

definition forgotPassword :: "remote_api \<Rightarrow> jsval \<Rightarrow> adapter \<Rightarrow> outcome" where
  "forgotPassword api email this =
     \<lparr>after = this, emitted = [], called = [Call_forgotPassword email],
      settled = (case api_forgotPassword api email of
                   Inl err \<Rightarrow> Rejected (Api_error err)
                 | Inr v \<Rightarrow> Resolved (Res_passthrough v))\<rparr>"

definition resetPassword :: "remote_api \<Rightarrow> jsval \<Rightarrow> jsval \<Rightarrow> adapter \<Rightarrow> outcome" where
  "resetPassword api resetCode newPassword this =
     \<lparr>after = this, emitted = [], called = [Call_resetPassword resetCode newPassword],
      settled = (case api_resetPassword api resetCode newPassword of
                   Inl err \<Rightarrow> Rejected (Api_error err)
                 | Inr v \<Rightarrow> Resolved (Res_passthrough v))\<rparr>"

text \<open>
  The loop of \<^verbatim>\<open>_updateUserDetails\<close>:
  \<^verbatim>\<open>Object.keys(result.user).forEach(key => { this.user[key] = result.user[key]; })\<close>.
\<close>

fun merge_keys :: "string list \<Rightarrow> obj \<Rightarrow> user_object \<Rightarrow> user_object" where
  "merge_keys [] returned target = target"
| "merge_keys (key # keys) returned target =
     merge_keys keys returned (assign key (own_field returned key) target)"

definition updateUserDetails' :: "remote_api \<Rightarrow> jsval \<Rightarrow> adapter \<Rightarrow> outcome" where
  "updateUserDetails' api details this =
     (case user this of
        None \<Rightarrow>
          \<lparr>after = this, emitted = [], called = [], settled = Rejected not_signed_in\<rparr>
      | Some u \<Rightarrow>
          if typeof details \<noteq> ''object'' then
            \<lparr>after = this, emitted = [], called = [],
             settled = Rejected (Precondition ''invalid_details'' ''details must be an object'')\<rparr>
          else
            (case api_updateUserDetails api details of
               Inl err \<Rightarrow>
                 \<lparr>after = this, emitted = [], called = [Call_updateUserDetails details],
                  settled = Rejected (Api_error err)\<rparr>
             | Inr result_user \<Rightarrow>
                 \<lparr>after = this\<lparr>heap := (heap this)
                            (u := merge_keys (Object_keys result_user) result_user (heap this u))\<rparr>,
                  emitted = [], called = [Call_updateUserDetails details],
                  settled = Resolved (Res_user u)\<rparr>))"

definition changeUsername :: "remote_api \<Rightarrow> jsval \<Rightarrow> adapter \<Rightarrow> outcome" where
  "changeUsername api newUsername this =
     updateUserDetails' api (JObject [(''username'', newUsername)]) this"

definition changeEmail :: "remote_api \<Rightarrow> jsval \<Rightarrow> adapter \<Rightarrow> outcome" where
  "changeEmail api newEmail this =
     updateUserDetails' api (JObject [(''email'', newEmail)]) this"

definition updateUserSettings :: "remote_api \<Rightarrow> jsval \<Rightarrow> adapter \<Rightarrow> outcome" where
  "updateUserSettings api settings this =
     updateUserDetails' api (JObject [(''settings'', settings)]) this"

text \<open>
  \<^verbatim>\<open>const isAdmin = this.user && this.user.uid === 'admin'\<close> is \<^verbatim>\<open>null\<close> or a boolean and
  is only ever tested for truthiness.
\<close>

definition isAdmin :: "adapter \<Rightarrow> bool" where
  "isAdmin this =
     (case user this of None \<Rightarrow> False | Some u \<Rightarrow> field (heap this u) ''uid'' = JStr ''admin'')"

definition signUp :: "(jsval \<Rightarrow> user_object) \<Rightarrow> remote_api \<Rightarrow> jsval \<Rightarrow> adapter \<Rightarrow> outcome" where
  "signUp AceBaseUser api details this =
     (case (member details ''username'', member details ''email'', member details ''password'') of
        (Some username, Some email, Some password) \<Rightarrow>
          if \<not> truthy username \<and> \<not> truthy email then
            \<lparr>after = this, emitted = [], called = [],
             settled = Rejected (Precondition ''invalid_details'' ''No username or email set'')\<rparr>
          else if \<not> truthy password then
            \<lparr>after = this, emitted = [], called = [],
             settled = Rejected (Precondition ''invalid_details'' ''No password given'')\<rparr>
          else
            (let admin = isAdmin this;
                 this1 = (if user this \<noteq> None \<and> \<not> admin then this\<lparr>user := None\<rparr> else this);
                 events1 = (case user this of
                              None \<Rightarrow> []
                            | Some u \<Rightarrow> if \<not> admin then [Event ''signout'' ''signup'' u None] else [])
             in case api_signUp api details (\<not> admin) of
                  Inl err \<Rightarrow>
                    \<lparr>after = this1, emitted = events1, called = [Call_signUp details (\<not> admin)],
                     settled = Rejected (Api_error err)\<rparr>
                | Inr details' \<Rightarrow>
                    if admin then
                      \<lparr>after = this1, emitted = events1,
                       called = [Call_signUp details (\<not> admin)],
                       settled = Resolved (Res_new_user (user_of details'))\<rparr>
                    else
                      (let this2 = this1\<lparr>accessToken := accessToken_of details'\<rparr>;
                           u = next_ref this2;
                           this3 = (allocate (AceBaseUser (user_of details')) this2)\<lparr>user := Some u\<rparr>
                       in \<lparr>after = this3,
                           emitted = events1 @ [Event ''signin'' ''signup'' u (Some (accessToken this3))],
                           called = [Call_signUp details (\<not> admin)],
                           settled = Resolved (Res_user_token u (accessToken this3))\<rparr>))
      | _ \<Rightarrow>
          \<lparr>after = this, emitted = [], called = [], settled = Thrown_TypeError\<rparr>)"

definition deleteAccount :: "remote_api \<Rightarrow> jsval \<Rightarrow> adapter \<Rightarrow> outcome" where
  "deleteAccount api uid this =
     (case user this of
        None \<Rightarrow>
          \<lparr>after = this, emitted = [], called = [], settled = Rejected not_signed_in\<rparr>
      | Some u \<Rightarrow>
          (let own = field (heap this u) ''uid'' in
           if truthy uid \<and> own \<noteq> JStr ''admin'' then
             \<lparr>after = this, emitted = [], called = [],
              settled = Rejected (Precondition ''not_admin''
                ''Cannot remove other accounts than signed into account, unless you are admin'')\<rparr>
           else
             (let deleteUid = (if truthy uid then uid else own) in
              if deleteUid = JStr ''admin'' then
                \<lparr>after = this, emitted = [], called = [],
                 settled = Rejected (Precondition ''not_allowed'' ''Cannot remove admin user'')\<rparr>
              else
                (let signOut = (own \<noteq> JStr ''admin'') in
                 case api_deleteAccount api deleteUid signOut of
                   Inl err \<Rightarrow>
                     \<lparr>after = this, emitted = [], called = [Call_deleteAccount deleteUid signOut],
                      settled = Rejected (Api_error err)\<rparr>
                 | Inr _ \<Rightarrow>
                     if signOut then
                       \<lparr>after = this\<lparr>accessToken := JNull, user := None\<rparr>,
                        emitted = [Event ''signout'' ''delete_account'' u None],
                        called = [Call_deleteAccount deleteUid signOut],
                        settled = Resolved Res_void\<rparr>
                     else
                       \<lparr>after = this, emitted = [], called = [Call_deleteAccount deleteUid signOut],
                        settled = Resolved Res_void\<rparr>))))"

section \<open>Sequences of calls\<close>

text \<open>
  The details \<^verbatim>\<open>signUp\<close> accepts: reading \<^verbatim>\<open>username\<close>, \<^verbatim>\<open>email\<close> and \<^verbatim>\<open>password\<close>
  does not throw, one of username and email is truthy, and the password is truthy.
\<close>

definition valid_details :: "jsval \<Rightarrow> bool" where
  "valid_details details =
     (case (member details ''username'', member details ''email'', member details ''password'') of
        (Some username, Some email, Some password) \<Rightarrow>
          (truthy username \<or> truthy email) \<and> truthy password
      | _ \<Rightarrow> False)"

text \<open>One call of a method of the adapter, with its arguments.\<close>

datatype operation =
    Op_signIn jsval jsval
  | Op_signInWithEmail jsval jsval
  | Op_signInWithToken jsval
  | Op_signOut jsval
  | Op_changePassword jsval jsval
  | Op_forgotPassword jsval
  | Op_resetPassword jsval jsval
  | Op_updateUserDetails jsval
  | Op_changeUsername jsval
  | Op_changeEmail jsval
  | Op_updateUserSettings jsval
  | Op_signUp jsval
  | Op_deleteAccount jsval

fun perform :: "(jsval \<Rightarrow> user_object) \<Rightarrow> remote_api \<Rightarrow> operation \<Rightarrow> adapter \<Rightarrow> outcome" where
  "perform AceBaseUser api (Op_signIn username password) this =
     signIn AceBaseUser api username password this"
| "perform AceBaseUser api (Op_signInWithEmail email password) this =
     signInWithEmail AceBaseUser api email password this"
| "perform AceBaseUser api (Op_signInWithToken token) this =
     signInWithToken AceBaseUser api token this"
| "perform AceBaseUser api (Op_signOut everywhere) this = signOut api everywhere this"
| "perform AceBaseUser api (Op_changePassword oldPassword newPassword) this =
     changePassword api oldPassword newPassword this"
| "perform AceBaseUser api (Op_forgotPassword email) this = forgotPassword api email this"
| "perform AceBaseUser api (Op_resetPassword resetCode newPassword) this =
     resetPassword api resetCode newPassword this"
| "perform AceBaseUser api (Op_updateUserDetails details) this =
     updateUserDetails' api details this"
| "perform AceBaseUser api (Op_changeUsername newUsername) this =
     changeUsername api newUsername this"
| "perform AceBaseUser api (Op_changeEmail newEmail) this = changeEmail api newEmail this"
| "perform AceBaseUser api (Op_updateUserSettings settings) this =
     updateUserSettings api settings this"
| "perform AceBaseUser api (Op_signUp details) this = signUp AceBaseUser api details this"
| "perform AceBaseUser api (Op_deleteAccount uid) this = deleteAccount api uid this"

text \<open>A call fails when its promise is rejected or the call throws.\<close>

fun failure :: "settled \<Rightarrow> bool" where
  "failure (Resolved v) = False"
| "failure (Rejected e) = True"
| "failure Thrown_TypeError = True"

text \<open>
  The calls that set \<^verbatim>\<open>this.user = null\<close> before they call the API: the three sign-in
  variants, and \<^verbatim>\<open>signUp\<close> with accepted details from a signed-in user who is not admin.
\<close>

fun clears_user_first :: "operation \<Rightarrow> adapter \<Rightarrow> bool" where
  "clears_user_first (Op_signIn username password) this = True"
| "clears_user_first (Op_signInWithEmail email password) this = True"
| "clears_user_first (Op_signInWithToken token) this = True"
| "clears_user_first (Op_signUp details) this =
     (valid_details details \<and> user this \<noteq> None \<and> \<not> isAdmin this)"
| "clears_user_first other this = False"

text \<open>
  A sequence of calls, each settled before the next one starts, each against the API as
  it answers at that moment.
\<close>

fun run_all :: "(jsval \<Rightarrow> user_object) \<Rightarrow> (remote_api \<times> operation) list \<Rightarrow> adapter \<Rightarrow> adapter" where
  "run_all AceBaseUser [] this = this"
| "run_all AceBaseUser ((api, call) # rest) this =
     run_all AceBaseUser rest (after (perform AceBaseUser api call this))"

text \<open>A token is present when it is neither \<^verbatim>\<open>null\<close> nor \<^verbatim>\<open>undefined\<close>.\<close>

definition present :: "jsval \<Rightarrow> bool" where
  "present v = (v \<noteq> JNull \<and> v \<noteq> JUndefined)"

text \<open>
  An API that keeps the contract of its replies: a successful sign-in, password change, or
  sign-up that signs into the new account, carries an access token.
\<close>

definition issues_tokens :: "remote_api \<Rightarrow> bool" where
  "issues_tokens api =
     ((\<forall>username password details.
         api_signIn api username password = Inr details \<longrightarrow> present (accessToken_of details))
    \<and> (\<forall>email password details.
         api_signInWithEmail api email password = Inr details \<longrightarrow> present (accessToken_of details))
    \<and> (\<forall>token details.
         api_signInWithToken api token = Inr details \<longrightarrow> present (accessToken_of details))
    \<and> (\<forall>uid oldPassword newPassword token.
         api_changePassword api uid oldPassword newPassword = Inr token \<longrightarrow> present token)
    \<and> (\<forall>details details'.
         api_signUp api details True = Inr details' \<longrightarrow> present (accessToken_of details')))"

section \<open>Concrete collaborators for evaluation\<close>

text \<open>An \<^verbatim>\<open>AceBaseUser\<close> constructor that copies the properties of the profile it is given.\<close>

fun copy_profile :: "jsval \<Rightarrow> user_object" where
  "copy_profile (JObject fs) = \<lparr>props = fs, proto = Default_proto\<rparr>"
| "copy_profile v = \<lparr>props = [], proto = Default_proto\<rparr>"

text \<open>An API on which every call fails, and one on which every call succeeds.\<close>

definition api_down :: remote_api where
  "api_down =
     \<lparr>api_signIn = (\<lambda>u p. Inl (JStr ''offline'')),
      api_signInWithEmail = (\<lambda>e p. Inl (JStr ''offline'')),
      api_signInWithToken = (\<lambda>t. Inl (JStr ''offline'')),
      api_signOut = (\<lambda>e. Inl (JStr ''offline'')),
      api_changePassword = (\<lambda>u p q. Inl (JStr ''offline'')),
      api_forgotPassword = (\<lambda>e. Inl (JStr ''offline'')),
      api_resetPassword = (\<lambda>c p. Inl (JStr ''offline'')),
      api_updateUserDetails = (\<lambda>d. Inl (JStr ''offline'')),
      api_signUp = (\<lambda>d f. Inl (JStr ''offline'')),
      api_deleteAccount = (\<lambda>u f. Inl (JStr ''offline''))\<rparr>"

definition bob :: jsval where
  "bob = JObject [(''uid'', JStr ''u1''), (''username'', JStr ''bob''),
                  (''email'', JStr ''bob@example.org'')]"

definition api_up :: remote_api where
  "api_up =
     \<lparr>api_signIn = (\<lambda>u p. Inr (Details (JStr ''tok1'') bob)),
      api_signInWithEmail = (\<lambda>e p. Inr (Details (JStr ''tok2'') bob)),
      api_signInWithToken = (\<lambda>t. Inr (Details (JStr ''tok3'') bob)),
      api_signOut = (\<lambda>e. Inr ()),
      api_changePassword = (\<lambda>u p q. Inr (JStr ''tok4'')),
      api_forgotPassword = (\<lambda>e. Inr JUndefined),
      api_resetPassword = (\<lambda>c p. Inr JUndefined),
      api_updateUserDetails = (\<lambda>d. Inr (case d of JObject fs \<Rightarrow> fs | _ \<Rightarrow> [])),
      api_signUp = (\<lambda>d f. Inr (Details (if f then JStr ''tok5'' else JUndefined)
                       (JObject [(''uid'', JStr ''u2''), (''username'', JStr ''carol'')]))),
      api_deleteAccount = (\<lambda>u f. Inr ())\<rparr>"

text \<open>The API that succeeds, with a chosen user in its reply to update-details.\<close>

definition api_updating :: "obj \<Rightarrow> remote_api" where
  "api_updating returned = api_up\<lparr>api_updateUserDetails := (\<lambda>d. Inr returned)\<rparr>"

text \<open>A session signed in as \<open>bob\<close>, and one signed in as the admin account.\<close>

definition bob_session :: adapter where
  "bob_session =
     \<lparr>user = Some 0, accessToken = JStr ''tok0'',
      heap = (\<lambda>a. \<lparr>props = [], proto = Default_proto\<rparr>)(0 := copy_profile bob),
      next_ref = 1\<rparr>"

definition admin_session :: adapter where
  "admin_session =
     \<lparr>user = Some 0, accessToken = JStr ''tokA'',
      heap = (\<lambda>a. \<lparr>props = [], proto = Default_proto\<rparr>)
               (0 := \<lparr>props = [(''uid'', JStr ''admin'')], proto = Default_proto\<rparr>),
      next_ref = 1\<rparr>"

section \<open>Sign-in\<close>

text \<open>
  C6. For each of \<^verbatim>\<open>signIn\<close>, \<^verbatim>\<open>signInWithEmail\<close> and \<^verbatim>\<open>signInWithToken\<close> and every
  successful API reply \<open>{accessToken, user}\<close>: afterwards the session holds exactly that
  access token and a reference to a newly allocated user object built by the
  \<^verbatim>\<open>AceBaseUser\<close> constructor from that profile (no other object is touched); exactly one
  event is emitted, a \<^verbatim>\<open>signin\<close> whose source is \<^verbatim>\<open>signin\<close>, \<^verbatim>\<open>email_signin\<close> or
  \<^verbatim>\<open>token_signin\<close> respectively and which carries that user and token; and the call
  resolves with \<open>{user, accessToken}\<close>.
\<close>

theorem sign_in_variants_success:
  fixes AceBaseUser :: "jsval \<Rightarrow> user_object"
  defines "post \<equiv> (\<lambda>source this details out.
      accessToken (after out) = accessToken_of details
    \<and> user (after out) = Some (next_ref this)
    \<and> heap (after out) = (heap this)(next_ref this := AceBaseUser (user_of details))
    \<and> emitted out = [Event ''signin'' source (next_ref this) (Some (accessToken_of details))]
    \<and> settled out = Resolved (Res_user_token (next_ref this) (accessToken_of details)))"
  shows "(api_signIn api username password = Inr details \<longrightarrow>
            post ''signin'' this details (signIn AceBaseUser api username password this))
       \<and> (api_signInWithEmail api email password = Inr details \<longrightarrow>
            post ''email_signin'' this details (signInWithEmail AceBaseUser api email password this))
       \<and> (api_signInWithToken api token = Inr details \<longrightarrow>
            post ''token_signin'' this details (signInWithToken AceBaseUser api token this))"
  by (simp add: post_def signIn_def signInWithEmail_def signInWithToken_def allocate_def Let_def)

theorem sign_in_variants_success_witness:
  "api_signIn api_up (JStr ''bob'') (JStr ''pw'') = Inr (Details (JStr ''tok1'') bob)
   \<and> settled (signIn copy_profile api_up (JStr ''bob'') (JStr ''pw'') new_AceBaseClientAuth)
       = Resolved (Res_user_token 0 (JStr ''tok1''))
   \<and> emitted (signInWithEmail copy_profile api_up (JStr ''bob@example.org'') (JStr ''pw'') bob_session)
       = [Event ''signin'' ''email_signin'' 1 (Some (JStr ''tok2''))]
   \<and> props (heap (after (signInWithToken copy_profile api_up (JStr ''tok0'') bob_session)) 1)
       = [(''uid'', JStr ''u1''), (''username'', JStr ''bob''), (''email'', JStr ''bob@example.org'')]"
  using sign_in_variants_success [where api = api_up and AceBaseUser = copy_profile
          and username = "JStr ''bob''" and password = "JStr ''pw''"
          and details = "Details (JStr ''tok1'') bob" and this = new_AceBaseClientAuth]
        sign_in_variants_success [where api = api_up and AceBaseUser = copy_profile
          and email = "JStr ''bob@example.org''" and password = "JStr ''pw''"
          and details = "Details (JStr ''tok2'') bob" and this = bob_session]
        sign_in_variants_success [where api = api_up and AceBaseUser = copy_profile
          and token = "JStr ''tok0''"
          and details = "Details (JStr ''tok3'') bob" and this = bob_session]
  by (simp add: api_up_def new_AceBaseClientAuth_def bob_session_def bob_def)

section \<open>Operations that need a signed-in user\<close>

text \<open>
  C10. In a session with no current user, each of \<^verbatim>\<open>signOut\<close>, \<^verbatim>\<open>changePassword\<close>,
  \<^verbatim>\<open>changeUsername\<close>, \<^verbatim>\<open>changeEmail\<close>, \<^verbatim>\<open>updateUserSettings\<close> and \<^verbatim>\<open>deleteAccount\<close>
  rejects with code \<^verbatim>\<open>not_signed_in\<close>, calls no operation of the Remote Auth API, emits
  no event and leaves the adapter exactly as it was.
\<close>

theorem no_user_rejects_not_signed_in:
  assumes "user this = None"
  defines "refused \<equiv> \<lparr>after = this, emitted = [], called = [],
                       settled = Rejected (Precondition ''not_signed_in'' ''Not signed in!'')\<rparr>"
  shows "signOut api everywhere this = refused
       \<and> changePassword api oldPassword newPassword this = refused
       \<and> changeUsername api newUsername this = refused
       \<and> changeEmail api newEmail this = refused
       \<and> updateUserSettings api settings this = refused
       \<and> deleteAccount api uid this = refused"
  using assms
  by (simp add: signOut_def changePassword_def changeUsername_def changeEmail_def
      updateUserSettings_def updateUserDetails'_def deleteAccount_def not_signed_in_def)

theorem no_user_rejects_not_signed_in_witness:
  "user new_AceBaseClientAuth = None
   \<and> settled (signOut api_up (JBool False) new_AceBaseClientAuth)
       = Rejected (Precondition ''not_signed_in'' ''Not signed in!'')
   \<and> called (changePassword api_up (JStr ''old'') (JStr ''new'') new_AceBaseClientAuth) = []
   \<and> called (changeUsername api_up (JStr ''bobby'') new_AceBaseClientAuth) = []
   \<and> called (changeEmail api_up (JStr ''b@example.org'') new_AceBaseClientAuth) = []
   \<and> called (updateUserSettings api_up (JObject []) new_AceBaseClientAuth) = []
   \<and> after (deleteAccount api_up JUndefined new_AceBaseClientAuth) = new_AceBaseClientAuth"
  using no_user_rejects_not_signed_in [where this = new_AceBaseClientAuth and api = api_up
          and everywhere = "JBool False" and oldPassword = "JStr ''old''"
          and newPassword = "JStr ''new''" and newUsername = "JStr ''bobby''"
          and newEmail = "JStr ''b@example.org''" and settings = "JObject []"
          and uid = JUndefined]
  by (simp add: new_AceBaseClientAuth_def)

text \<open>
  C7. In a signed-in session, after a successful \<^verbatim>\<open>changePassword\<close> the session's user
  reference is the same and the object it refers to (like every other object) has the
  same fields, while the session's access token is the token the API returned; the call
  resolves with that token and emits one \<^verbatim>\<open>signin\<close> event with source
  \<^verbatim>\<open>password_change\<close> carrying the user and the new token. The API is called with the
  current user's uid and both passwords.
\<close>

theorem changePassword_success:
  fixes api :: remote_api
  assumes "user this = Some u"
    and "api_changePassword api (field (heap this u) ''uid'') oldPassword newPassword = Inr token"
  defines "out \<equiv> changePassword api oldPassword newPassword this"
  shows "user (after out) = Some u
       \<and> heap (after out) = heap this
       \<and> accessToken (after out) = token
       \<and> after out = this\<lparr>accessToken := token\<rparr>
       \<and> settled out = Resolved (Res_token token)
       \<and> emitted out = [Event ''signin'' ''password_change'' u (Some token)]
       \<and> called out = [Call_changePassword (field (heap this u) ''uid'') oldPassword newPassword]"
  using assms by (simp add: changePassword_def Let_def)

theorem changePassword_success_witness:
  "user bob_session = Some 0
   \<and> api_changePassword api_up (field (heap bob_session 0) ''uid'') (JStr ''old'') (JStr ''new'')
       = Inr (JStr ''tok4'')
   \<and> user (after (changePassword api_up (JStr ''old'') (JStr ''new'') bob_session)) = Some 0
   \<and> heap (after (changePassword api_up (JStr ''old'') (JStr ''new'') bob_session)) = heap bob_session
   \<and> accessToken (after (changePassword api_up (JStr ''old'') (JStr ''new'') bob_session)) = JStr ''tok4''
   \<and> accessToken bob_session = JStr ''tok0''"
  using changePassword_success [where this = bob_session and u = 0 and api = api_up
          and oldPassword = "JStr ''old''" and newPassword = "JStr ''new''"
          and token = "JStr ''tok4''"]
  by (simp add: bob_session_def api_up_def)

text \<open>
  C3, as the code has it. In a signed-in session, \<^verbatim>\<open>deleteAccount(uid)\<close> rejects with code
  \<^verbatim>\<open>not_admin\<close> when the uid argument is truthy and the current user's uid is not
  \<^verbatim>\<open>'admin'\<close>; otherwise it rejects with code \<^verbatim>\<open>not_allowed\<close> when the effective target
  (the uid argument if it is truthy, else the current user's uid) is \<^verbatim>\<open>'admin'\<close>;
  otherwise it calls the API's \<^verbatim>\<open>deleteAccount\<close> with that target and with the sign-out
  flag true exactly when the caller's uid is not \<^verbatim>\<open>'admin'\<close>. A falsy argument
  (\<^verbatim>\<open>undefined\<close>, \<^verbatim>\<open>null\<close>, \<^verbatim>\<open>''\<close>, \<^verbatim>\<open>0\<close>, \<^verbatim>\<open>false\<close>) counts as no uid. Neither
  rejection calls the API.
\<close>

theorem deleteAccount_decisions:
  fixes uid :: jsval and api :: remote_api
  assumes "user this = Some u"
  defines "own \<equiv> field (heap this u) ''uid''"
  defines "target \<equiv> (if truthy uid then uid else own)"
  defines "out \<equiv> deleteAccount api uid this"
  shows "(truthy uid \<and> own \<noteq> JStr ''admin'' \<longrightarrow>
            settled out = Rejected (Precondition ''not_admin''
              ''Cannot remove other accounts than signed into account, unless you are admin'')
            \<and> called out = [])
       \<and> (\<not> (truthy uid \<and> own \<noteq> JStr ''admin'') \<and> target = JStr ''admin'' \<longrightarrow>
            settled out = Rejected (Precondition ''not_allowed'' ''Cannot remove admin user'')
            \<and> called out = [])
       \<and> (\<not> (truthy uid \<and> own \<noteq> JStr ''admin'') \<and> target \<noteq> JStr ''admin'' \<longrightarrow>
            called out = [Call_deleteAccount target (own \<noteq> JStr ''admin'')])"
  using assms by (simp add: deleteAccount_def Let_def split: sum.splits)

theorem deleteAccount_decisions_witness:
  "user bob_session = Some 0 \<and> user admin_session = Some 0
   \<and> settled (deleteAccount api_up (JStr ''u2'') bob_session)
       = Rejected (Precondition ''not_admin''
           ''Cannot remove other accounts than signed into account, unless you are admin'')
   \<and> settled (deleteAccount api_up JUndefined admin_session)
       = Rejected (Precondition ''not_allowed'' ''Cannot remove admin user'')
   \<and> called (deleteAccount api_up JUndefined bob_session) = [Call_deleteAccount (JStr ''u1'') True]
   \<and> called (deleteAccount api_up (JStr ''u2'') admin_session) = [Call_deleteAccount (JStr ''u2'') False]"
  using deleteAccount_decisions [where this = bob_session and u = 0 and api = api_up
          and uid = "JStr ''u2''"]
        deleteAccount_decisions [where this = admin_session and u = 0 and api = api_up
          and uid = JUndefined]
        deleteAccount_decisions [where this = bob_session and u = 0 and api = api_up
          and uid = JUndefined]
        deleteAccount_decisions [where this = admin_session and u = 0 and api = api_up
          and uid = "JStr ''u2''"]
  by (simp add: bob_session_def admin_session_def bob_def field_def own_field_def)

text \<open>
  C3 as stated fails for a uid argument that is given but falsy: a user who is not admin
  and calls \<^verbatim>\<open>deleteAccount('')\<close> is not rejected with \<^verbatim>\<open>not_admin\<close>; the API is called
  to delete the caller's own account, and the caller is signed out.
\<close>

theorem deleteAccount_empty_uid_counterexample:
  "JStr [] \<noteq> JUndefined
   \<and> user bob_session = Some 0
   \<and> field (heap bob_session 0) ''uid'' = JStr ''u1''
   \<and> called (deleteAccount api_up (JStr []) bob_session) = [Call_deleteAccount (JStr ''u1'') True]
   \<and> settled (deleteAccount api_up (JStr []) bob_session) = Resolved Res_void
   \<and> emitted (deleteAccount api_up (JStr []) bob_session)
       = [Event ''signout'' ''delete_account'' 0 None]"
  by (simp add: deleteAccount_def bob_session_def bob_def api_up_def field_def own_field_def Let_def)

section \<open>Sign-up\<close>

text \<open>
  C4. In a session whose current user has uid \<^verbatim>\<open>'admin'\<close>, \<^verbatim>\<open>signUp\<close> with accepted
  details calls the API's sign-up once, with those details and with the flag that tells
  whether the caller is the admin account (the code passes \<^verbatim>\<open>!isAdmin\<close>, here
  \<^verbatim>\<open>false\<close>); when the API call succeeds, \<^verbatim>\<open>signUp\<close> resolves with just the user the API
  returned (no access token), leaves the adapter (the admin's user and token) exactly as
  it was, and emits no event.
\<close>

theorem signUp_as_admin:
  fixes api :: remote_api and AceBaseUser :: "jsval \<Rightarrow> user_object"
  assumes "user this = Some u" and "field (heap this u) ''uid'' = JStr ''admin''"
    and "valid_details details"
  defines "out \<equiv> signUp AceBaseUser api details this"
  shows "called out = [Call_signUp details False]
       \<and> (api_signUp api details False = Inr details' \<longrightarrow>
            settled out = Resolved (Res_new_user (user_of details'))
            \<and> after out = this
            \<and> user (after out) = Some u \<and> accessToken (after out) = accessToken this
            \<and> emitted out = [])"
  using assms
  by (auto simp add: signUp_def valid_details_def isAdmin_def Let_def
      split: option.splits sum.splits)

theorem signUp_as_admin_witness:
  "user admin_session = Some 0
   \<and> field (heap admin_session 0) ''uid'' = JStr ''admin''
   \<and> valid_details (JObject [(''username'', JStr ''carol''), (''password'', JStr ''x'')])
   \<and> called (signUp copy_profile api_up
        (JObject [(''username'', JStr ''carol''), (''password'', JStr ''x'')]) admin_session)
       = [Call_signUp (JObject [(''username'', JStr ''carol''), (''password'', JStr ''x'')]) False]
   \<and> settled (signUp copy_profile api_up
        (JObject [(''username'', JStr ''carol''), (''password'', JStr ''x'')]) admin_session)
       = Resolved (Res_new_user (JObject [(''uid'', JStr ''u2''), (''username'', JStr ''carol'')]))
   \<and> after (signUp copy_profile api_up
        (JObject [(''username'', JStr ''carol''), (''password'', JStr ''x'')]) admin_session)
       = admin_session"
  using signUp_as_admin [where this = admin_session and u = 0 and api = api_up
          and AceBaseUser = copy_profile
          and details = "JObject [(''username'', JStr ''carol''), (''password'', JStr ''x'')]"
          and details' = "Details JUndefined
                            (JObject [(''uid'', JStr ''u2''), (''username'', JStr ''carol'')])"]
  by (simp add: admin_session_def api_up_def valid_details_def field_def own_field_def)

text \<open>
  C5, as the code has it. In a session whose current user is signed in and is not the
  admin account, \<^verbatim>\<open>signUp\<close> with accepted details emits a \<^verbatim>\<open>signout\<close> event with source
  \<^verbatim>\<open>signup\<close> carrying the previous user before any \<^verbatim>\<open>signin\<close> event with source
  \<^verbatim>\<open>signup\<close>, and this local sign-out (the session's user cleared, \<^verbatim>\<open>signout\<close> emitted)
  happens whether the API's sign-up then succeeds or fails: on failure the session has no
  user and the \<^verbatim>\<open>signout\<close> is the only event; on success the \<^verbatim>\<open>signin\<close> for the new
  user follows it.
\<close>

theorem signUp_signs_out_first:
  fixes api :: remote_api and AceBaseUser :: "jsval \<Rightarrow> user_object"
  assumes "user this = Some u" and "field (heap this u) ''uid'' \<noteq> JStr ''admin''"
    and "valid_details details"
  defines "out \<equiv> signUp AceBaseUser api details this"
  shows "called out = [Call_signUp details True]
       \<and> (api_signUp api details True = Inl err \<longrightarrow>
            emitted out = [Event ''signout'' ''signup'' u None]
            \<and> user (after out) = None
            \<and> settled out = Rejected (Api_error err))
       \<and> (api_signUp api details True = Inr details' \<longrightarrow>
            emitted out = [Event ''signout'' ''signup'' u None,
                           Event ''signin'' ''signup'' (next_ref this) (Some (accessToken_of details'))]
            \<and> user (after out) = Some (next_ref this)
            \<and> settled out = Resolved (Res_user_token (next_ref this) (accessToken_of details')))"
  using assms
  by (auto simp add: signUp_def valid_details_def isAdmin_def allocate_def Let_def
      split: option.splits sum.splits)

theorem signUp_signs_out_first_witness:
  "user bob_session = Some 0
   \<and> field (heap bob_session 0) ''uid'' \<noteq> JStr ''admin''
   \<and> valid_details (JObject [(''username'', JStr ''a''), (''password'', JStr ''x''),
        (''displayName'', JStr ''A'')])
   \<and> emitted (signUp copy_profile api_up (JObject [(''username'', JStr ''a''),
        (''password'', JStr ''x''), (''displayName'', JStr ''A'')]) bob_session)
       = [Event ''signout'' ''signup'' 0 None, Event ''signin'' ''signup'' 1 (Some (JStr ''tok5''))]
   \<and> emitted (signUp copy_profile api_down (JObject [(''username'', JStr ''a''),
        (''password'', JStr ''x''), (''displayName'', JStr ''A'')]) bob_session)
       = [Event ''signout'' ''signup'' 0 None]
   \<and> user (after (signUp copy_profile api_down (JObject [(''username'', JStr ''a''),
        (''password'', JStr ''x''), (''displayName'', JStr ''A'')]) bob_session)) = None"
  using signUp_signs_out_first [where this = bob_session and u = 0 and api = api_up
          and AceBaseUser = copy_profile
          and details = "JObject [(''username'', JStr ''a''), (''password'', JStr ''x''),
                                  (''displayName'', JStr ''A'')]"
          and details' = "Details (JStr ''tok5'')
                            (JObject [(''uid'', JStr ''u2''), (''username'', JStr ''carol'')])"]
        signUp_signs_out_first [where this = bob_session and u = 0 and api = api_down
          and AceBaseUser = copy_profile
          and details = "JObject [(''username'', JStr ''a''), (''password'', JStr ''x''),
                                  (''displayName'', JStr ''A'')]"
          and err = "JStr ''offline''"]
  by (simp add: bob_session_def bob_def api_up_def api_down_def valid_details_def field_def own_field_def)

text \<open>
  C5 as stated fails where it says that the local sign-out clears the state: the signed-out
  session still holds the access token of the previous user when the API's sign-up fails.
\<close>

theorem signUp_keeps_token_counterexample:
  "settled (signUp copy_profile api_down
      (JObject [(''username'', JStr ''a''), (''password'', JStr ''x''),
                (''displayName'', JStr ''A'')]) bob_session)
     = Rejected (Api_error (JStr ''offline''))
   \<and> emitted (signUp copy_profile api_down
      (JObject [(''username'', JStr ''a''), (''password'', JStr ''x''),
                (''displayName'', JStr ''A'')]) bob_session)
     = [Event ''signout'' ''signup'' 0 None]
   \<and> user (after (signUp copy_profile api_down
      (JObject [(''username'', JStr ''a''), (''password'', JStr ''x''),
                (''displayName'', JStr ''A'')]) bob_session)) = None
   \<and> accessToken (after (signUp copy_profile api_down
      (JObject [(''username'', JStr ''a''), (''password'', JStr ''x''),
                (''displayName'', JStr ''A'')]) bob_session)) = JStr ''tok0''"
  by (simp add: signUp_def isAdmin_def bob_session_def bob_def api_down_def field_def own_field_def Let_def)

section \<open>Detail updates\<close>

lemma assign_other_key:
  "k \<noteq> ''__proto__'' \<Longrightarrow>
   map_of (props (assign key v target)) k = (if k = key then Some v else map_of (props target) k)"
  by (cases v) (auto simp add: assign_def update_conv')

lemma assign_plain_key:
  "key \<noteq> ''__proto__'' \<Longrightarrow>
   proto (assign key v target) = proto target
   \<and> map_of (props (assign key v target)) = (map_of (props target))(key \<mapsto> v)"
  by (simp add: assign_def update_conv')

lemma merge_keys_other_fields:
  "k \<noteq> ''__proto__'' \<Longrightarrow>
   map_of (props (merge_keys keys returned target)) k =
     (if k \<in> set keys then Some (own_field returned k) else map_of (props target) k)"
proof (induction keys arbitrary: target)
  case Nil
  then show ?case by simp
next
  case (Cons key keys)
  let ?target = "assign key (own_field returned key) target"
  have step: "map_of (props ?target) k =
      (if k = key then Some (own_field returned key) else map_of (props target) k)"
    using Cons.prems by (rule assign_other_key)
  have "map_of (props (merge_keys (key # keys) returned target)) k =
      (if k \<in> set keys then Some (own_field returned k) else map_of (props ?target) k)"
    using Cons.IH [OF Cons.prems, of ?target] by simp
  also have "\<dots> = (if k \<in> set (key # keys) then Some (own_field returned k)
      else map_of (props target) k)"
    unfolding step by auto
  finally show ?case .
qed

lemma merge_keys_plain_keys:
  "''__proto__'' \<notin> set keys \<Longrightarrow>
   proto (merge_keys keys returned target) = proto target
   \<and> map_of (props (merge_keys keys returned target)) ''__proto__''
       = map_of (props target) ''__proto__''"
  by (induction keys arbitrary: target) (auto simp add: assign_plain_key)

lemma own_field_of_present_key:
  "k \<in> fst ` set returned \<Longrightarrow> Some (own_field returned k) = map_of returned k"
  by (auto simp add: own_field_def weak_map_of_SomeI split: option.splits
      dest: map_of_eq_None_iff [THEN iffD1])

lemma rejects_non_object_details:
  "user this = Some u \<Longrightarrow> typeof details \<noteq> ''object'' \<Longrightarrow>
   updateUserDetails' api details this =
     \<lparr>after = this, emitted = [], called = [],
      settled = Rejected (Precondition ''invalid_details'' ''details must be an object'')\<rparr>"
  by (simp add: updateUserDetails'_def)

text \<open>
  C8, at the input where the code departs from it. In a signed-in session
  \<^verbatim>\<open>_updateUserDetails(null)\<close> is not rejected with \<^verbatim>\<open>invalid_details\<close>: \<^verbatim>\<open>typeof null\<close> is
  \<^verbatim>\<open>'object'\<close>, so the guard lets \<^verbatim>\<open>null\<close> through and the API's update-details operation
  is called with it.
\<close>

theorem updateUserDetails_null_reaches_api:
  "typeof JNull = ''object''
   \<and> called (updateUserDetails' api_down JNull bob_session) = [Call_updateUserDetails JNull]
   \<and> settled (updateUserDetails' api_down JNull bob_session) = Rejected (Api_error (JStr ''offline''))
   \<and> called (updateUserDetails' api_up JNull bob_session) = [Call_updateUserDetails JNull]
   \<and> settled (updateUserDetails' api_up JNull bob_session) = Resolved (Res_user 0)"
  by (simp add: updateUserDetails'_def bob_session_def api_down_def api_up_def)

text \<open>
  What the detail update does with every returned field but \<^verbatim>\<open>__proto__\<close>. In a signed-in
  session, on a successful reply of the API's update-details operation, the user object
  the session already refers to has each returned field overwritten with the returned
  value and every other own field as before; every other object, the user reference and
  the access token are as they were; the call resolves with that same user object and
  emits no event. When the reply has no field \<^verbatim>\<open>__proto__\<close>, the object's prototype and
  its own \<^verbatim>\<open>__proto__\<close> property (if any) are untouched as well.
  \<^verbatim>\<open>changeUsername\<close>, \<^verbatim>\<open>changeEmail\<close> and \<^verbatim>\<open>updateUserSettings\<close> are this operation on the
  object payloads \<open>{username}\<close>, \<open>{email}\<close> and \<open>{settings}\<close>.
\<close>

lemma updateUserDetails_merges_other_fields:
  fixes api :: remote_api
  assumes "user this = Some u" and "typeof details = ''object''"
    and "api_updateUserDetails api details = Inr returned"
  defines "out \<equiv> updateUserDetails' api details this"
  shows "(\<forall>k. k \<noteq> ''__proto__'' \<longrightarrow>
            map_of (props (heap (after out) u)) k =
              (if k \<in> fst ` set returned then map_of returned k
               else map_of (props (heap this u)) k))
       \<and> (''__proto__'' \<notin> fst ` set returned \<longrightarrow>
            proto (heap (after out) u) = proto (heap this u)
            \<and> map_of (props (heap (after out) u)) ''__proto__''
                = map_of (props (heap this u)) ''__proto__'')
       \<and> (\<forall>a. a \<noteq> u \<longrightarrow> heap (after out) a = heap this a)
       \<and> user (after out) = Some u
       \<and> accessToken (after out) = accessToken this
       \<and> settled out = Resolved (Res_user u)
       \<and> emitted out = []
       \<and> called out = [Call_updateUserDetails details]
       \<and> changeUsername api newUsername this =
           updateUserDetails' api (JObject [(''username'', newUsername)]) this
       \<and> changeEmail api newEmail this =
           updateUserDetails' api (JObject [(''email'', newEmail)]) this
       \<and> updateUserSettings api settings this =
           updateUserDetails' api (JObject [(''settings'', settings)]) this
       \<and> typeof (JObject payload) = ''object''"
proof -
  have merged: "heap (after out) u = merge_keys (Object_keys returned) returned (heap this u)"
    and others: "\<forall>a. a \<noteq> u \<longrightarrow> heap (after out) a = heap this a"
    and rest: "user (after out) = Some u \<and> accessToken (after out) = accessToken this
       \<and> settled out = Resolved (Res_user u) \<and> emitted out = []
       \<and> called out = [Call_updateUserDetails details]"
    using assms by (simp_all add: updateUserDetails'_def)
  have fields: "map_of (props (heap (after out) u)) k =
          (if k \<in> fst ` set returned then map_of returned k else map_of (props (heap this u)) k)"
    if "k \<noteq> ''__proto__''" for k
    unfolding merged using that
    by (simp add: merge_keys_other_fields Object_keys_def own_field_of_present_key)
  have plain: "proto (heap (after out) u) = proto (heap this u)
      \<and> map_of (props (heap (after out) u)) ''__proto__'' = map_of (props (heap this u)) ''__proto__''"
    if "''__proto__'' \<notin> fst ` set returned"
    unfolding merged using that merge_keys_plain_keys [of "Object_keys returned"]
    by (simp add: Object_keys_def)
  from fields plain others rest show ?thesis
    by (simp add: changeUsername_def changeEmail_def updateUserSettings_def)
qed

text \<open>
  C9, at the input where the code departs from it. When the user in the API's reply has a
  field \<^verbatim>\<open>__proto__\<close> (as an object parsed from JSON can), the detail update does not
  overwrite that field in the session's user object: the assignment
  \<^verbatim>\<open>this.user['__proto__'] = ...\<close> goes to the setter of \<^verbatim>\<open>Object.prototype\<close>. For a
  returned string nothing is written at all; for a returned object the user object's
  prototype is replaced by it and the user object still has no own field of that name.
\<close>

theorem updateUserDetails_proto_field_not_merged:
  "api_updateUserDetails (api_updating [(''__proto__'', JStr ''x'')])
      (JObject [(''username'', JStr ''bobby'')]) = Inr [(''__proto__'', JStr ''x'')]
   \<and> settled (changeUsername (api_updating [(''__proto__'', JStr ''x'')]) (JStr ''bobby'') bob_session)
       = Resolved (Res_user 0)
   \<and> after (changeUsername (api_updating [(''__proto__'', JStr ''x'')]) (JStr ''bobby'') bob_session)
       = bob_session
   \<and> map_of (props (heap bob_session 0)) ''__proto__'' = None
   \<and> settled (changeUsername (api_updating [(''__proto__'', JObject [(''role'', JStr ''root'')])])
        (JStr ''bobby'') bob_session) = Resolved (Res_user 0)
   \<and> props (heap (after (changeUsername
        (api_updating [(''__proto__'', JObject [(''role'', JStr ''root'')])])
        (JStr ''bobby'') bob_session)) 0)
       = [(''uid'', JStr ''u1''), (''username'', JStr ''bob''), (''email'', JStr ''bob@example.org'')]
   \<and> proto (heap (after (changeUsername
        (api_updating [(''__proto__'', JObject [(''role'', JStr ''root'')])])
        (JStr ''bobby'') bob_session)) 0)
       = Object_proto [(''role'', JStr ''root'')]
   \<and> proto (heap bob_session 0) = Default_proto"
  by (simp add: changeUsername_def updateUserDetails'_def api_updating_def api_up_def
      bob_session_def bob_def Object_keys_def assign_def reaches_proto_setter_def own_field_def)

section \<open>Failed calls and reachable sessions\<close>

text \<open>
  C1, as the code has it. When a call of any operation fails (the API call is rejected, a
  local precondition check rejects, or \<^verbatim>\<open>signUp\<close> throws on \<^verbatim>\<open>null\<close> details), the access
  token and every user object are exactly as before the call. The session's user is as
  before too, so the adapter is unchanged, for \<^verbatim>\<open>signOut\<close>, \<^verbatim>\<open>changePassword\<close>,
  \<^verbatim>\<open>forgotPassword\<close>, \<^verbatim>\<open>resetPassword\<close>, the detail updates and \<^verbatim>\<open>deleteAccount\<close>, and for
  \<^verbatim>\<open>signUp\<close> when its details are refused or the caller has no user or is admin. The three
  sign-in variants, and \<^verbatim>\<open>signUp\<close> with accepted details from a signed-in user who is not
  admin, set the user to \<^verbatim>\<open>null\<close> before they call the API: after their failed call the
  adapter is as before except that it has no user.
\<close>

theorem failed_call_frame:
  assumes "failure (settled (perform AceBaseUser api call this))"
  shows "after (perform AceBaseUser api call this) =
           (if clears_user_first call this then this\<lparr>user := None\<rparr> else this)"
proof (cases call)
  case (Op_signUp details)
  with assms show ?thesis
    by (auto simp add: signUp_def valid_details_def isAdmin_def Let_def
        split: option.splits sum.splits if_splits)
next
  case (Op_deleteAccount uid)
  with assms show ?thesis
    by (auto simp add: deleteAccount_def Let_def split: option.splits sum.splits if_splits)
qed (use assms in \<open>auto simp add: signIn_def signInWithEmail_def signInWithToken_def
      signOut_def changePassword_def forgotPassword_def resetPassword_def
      updateUserDetails'_def changeUsername_def changeEmail_def updateUserSettings_def
      Let_def split: option.splits sum.splits if_splits\<close>)

theorem failed_call_frame_witness:
  "failure (settled (perform copy_profile api_down (Op_signOut (JBool False)) bob_session))
   \<and> after (perform copy_profile api_down (Op_signOut (JBool False)) bob_session) = bob_session
   \<and> failure (settled (perform copy_profile api_down
        (Op_signInWithToken (JStr ''tok0'')) bob_session))
   \<and> after (perform copy_profile api_down (Op_signInWithToken (JStr ''tok0'')) bob_session)
       = bob_session\<lparr>user := None\<rparr>"
  using failed_call_frame [where AceBaseUser = copy_profile and api = api_down
          and call = "Op_signOut (JBool False)" and this = bob_session]
        failed_call_frame [where AceBaseUser = copy_profile and api = api_down
          and call = "Op_signInWithToken (JStr ''tok0'')" and this = bob_session]
  by (simp add: signOut_def signInWithToken_def api_down_def bob_session_def)

text \<open>
  C1 as stated fails for \<^verbatim>\<open>signIn\<close>: the call clears the user before the API answers, so
  after a rejected sign-in a session that had a user has none.
\<close>

theorem failed_signIn_loses_user_counterexample:
  "user bob_session = Some 0 \<and> accessToken bob_session = JStr ''tok0''
   \<and> settled (signIn copy_profile api_down (JStr ''bob'') (JStr ''wrong'') bob_session)
       = Rejected (Api_error (JStr ''offline''))
   \<and> user (after (signIn copy_profile api_down (JStr ''bob'') (JStr ''wrong'') bob_session)) = None
   \<and> accessToken (after (signIn copy_profile api_down (JStr ''bob'') (JStr ''wrong'') bob_session))
       = JStr ''tok0''"
  by (simp add: signIn_def api_down_def bob_session_def)

lemma perform_keeps_token_with_user:
  assumes "issues_tokens api"
    and "user this \<noteq> None \<longrightarrow> present (accessToken this)"
  shows "user (after (perform AceBaseUser api call this)) \<noteq> None \<longrightarrow>
         present (accessToken (after (perform AceBaseUser api call this)))"
proof (cases call)
  case (Op_signUp details)
  show ?thesis
  proof (cases "api_signUp api details True")
    case (Inl err)
    with Op_signUp assms(2) show ?thesis
      by (auto simp add: signUp_def isAdmin_def Let_def split: option.splits sum.splits)
  next
    case (Inr details')
    with assms(1) have "present (accessToken_of details')"
      by (simp add: issues_tokens_def)
    with Op_signUp Inr assms(2) show ?thesis
      by (auto simp add: signUp_def isAdmin_def allocate_def Let_def
          split: option.splits sum.splits)
  qed
next
  case (Op_signIn username password)
  with assms show ?thesis
    by (auto simp add: signIn_def issues_tokens_def allocate_def Let_def split: sum.splits)
next
  case (Op_signInWithEmail email password)
  with assms show ?thesis
    by (auto simp add: signInWithEmail_def issues_tokens_def allocate_def Let_def
        split: sum.splits)
next
  case (Op_signInWithToken token)
  with assms show ?thesis
    by (auto simp add: signInWithToken_def issues_tokens_def allocate_def Let_def
        split: sum.splits)
next
  case (Op_changePassword oldPassword newPassword)
  with assms show ?thesis
    by (auto simp add: changePassword_def issues_tokens_def Let_def
        split: option.splits sum.splits)
next
  case (Op_deleteAccount uid)
  with assms(2) show ?thesis
    by (auto simp add: deleteAccount_def Let_def split: option.splits sum.splits)
qed (use assms(2) in \<open>auto simp add: signOut_def forgotPassword_def resetPassword_def
      updateUserDetails'_def changeUsername_def changeEmail_def updateUserSettings_def
      split: option.splits sum.splits\<close>)

lemma run_all_keeps_token_with_user:
  assumes "\<forall>(api, call) \<in> set calls. issues_tokens api"
    and "user this \<noteq> None \<longrightarrow> present (accessToken this)"
  shows "user (run_all AceBaseUser calls this) \<noteq> None \<longrightarrow>
         present (accessToken (run_all AceBaseUser calls this))"
  using assms
proof (induction calls arbitrary: this)
  case Nil
  then show ?case by simp
next
  case (Cons step calls)
  obtain api call where step: "step = (api, call)" by (cases step)
  from Cons.prems(1) step have "issues_tokens api" by simp
  from perform_keeps_token_with_user [OF this Cons.prems(2)]
  have "user (after (perform AceBaseUser api call this)) \<noteq> None \<longrightarrow>
        present (accessToken (after (perform AceBaseUser api call this)))" .
  moreover from Cons.prems(1) have "\<forall>(api, call) \<in> set calls. issues_tokens api" by simp
  ultimately show ?case
    using Cons.IH step by simp
qed

text \<open>
  C2, as the code has it. In every state reachable from the initial empty session by any
  sequence of adapter operations (failing ones included), against an API whose successful
  sign-in, password-change and signing-in sign-up replies carry an access token, a session
  that has a user has an access token. (The converse is not an invariant of the code.)
\<close>

theorem reachable_user_has_token:
  assumes "\<forall>(api, call) \<in> set calls. issues_tokens api"
  shows "user (run_all AceBaseUser calls new_AceBaseClientAuth) \<noteq> None \<longrightarrow>
         present (accessToken (run_all AceBaseUser calls new_AceBaseClientAuth))"
  using run_all_keeps_token_with_user [OF assms, of new_AceBaseClientAuth AceBaseUser]
  by (simp add: new_AceBaseClientAuth_def)

lemma issues_tokens_api_up: "issues_tokens api_up"
  by (simp add: issues_tokens_def api_up_def present_def)

theorem reachable_user_has_token_witness:
  "issues_tokens api_up
   \<and> user (run_all copy_profile
        [(api_up, Op_signIn (JStr ''bob'') (JStr ''pw'')),
         (api_up, Op_changePassword (JStr ''pw'') (JStr ''pw2''))] new_AceBaseClientAuth) = Some 0
   \<and> present (accessToken (run_all copy_profile
        [(api_up, Op_signIn (JStr ''bob'') (JStr ''pw'')),
         (api_up, Op_changePassword (JStr ''pw'') (JStr ''pw2''))] new_AceBaseClientAuth))"
proof -
  have user: "user (run_all copy_profile
        [(api_up, Op_signIn (JStr ''bob'') (JStr ''pw'')),
         (api_up, Op_changePassword (JStr ''pw'') (JStr ''pw2''))] new_AceBaseClientAuth) = Some 0"
    by (simp add: signIn_def changePassword_def allocate_def api_up_def
        new_AceBaseClientAuth_def Let_def)
  have "\<forall>(api, call) \<in> set [(api_up, Op_signIn (JStr ''bob'') (JStr ''pw'')),
         (api_up, Op_changePassword (JStr ''pw'') (JStr ''pw2''))]. issues_tokens api"
    by (simp add: issues_tokens_api_up)
  from reachable_user_has_token [OF this, of copy_profile] user issues_tokens_api_up
  show ?thesis by simp
qed

text \<open>
  C2 as stated fails: after a successful sign-in followed by a sign-in that the API
  rejects, the session holds the first sign-in's access token and no user.
\<close>

theorem token_without_user_counterexample:
  "user (run_all copy_profile
      [(api_up, Op_signIn (JStr ''bob'') (JStr ''pw'')),
       (api_down, Op_signIn (JStr ''bob'') (JStr ''wrong''))] new_AceBaseClientAuth) = None
   \<and> accessToken (run_all copy_profile
      [(api_up, Op_signIn (JStr ''bob'') (JStr ''pw'')),
       (api_down, Op_signIn (JStr ''bob'') (JStr ''wrong''))] new_AceBaseClientAuth) = JStr ''tok1''
   \<and> present (JStr ''tok1'')"
  by (simp add: signIn_def allocate_def api_up_def api_down_def new_AceBaseClientAuth_def
      present_def Let_def)

end
